theory Spec2Isabelle
  imports Complex_Main "HOL-Library.AList"
begin

section \<open>Python values and dictionaries\<close>

text \<open>
  A Python \<^verbatim>\<open>str\<close> is a sequence of Unicode code points. It may hold surrogate code
  points (U+D800 to U+DFFF) on their own: \<^verbatim>\<open>json.loads\<close> produces one from the escape
  \<^verbatim>\<open>\ud800\<close>. A code point is a natural number (Python's are below 1114112).
  \<open>py\<close> writes a string of the source text as a \<^verbatim>\<open>str\<close>.
\<close>

type_synonym pystr = "nat list"

definition py :: "string \<Rightarrow> pystr" where
  "py s = map of_char s"

definition is_surrogate :: "nat \<Rightarrow> bool" where
  "is_surrogate cp = (55296 \<le> cp \<and> cp \<le> 57343)"

text \<open>
  \<^verbatim>\<open>s.encode()\<close> encodes to UTF-8 and raises \<^verbatim>\<open>UnicodeEncodeError\<close> when the string holds
  a surrogate; no other string makes it raise.
\<close>

definition encodable :: "pystr \<Rightarrow> bool" where
  "encodable s = (\<not> list_ex is_surrogate s)"

text \<open>
  The filter of \<^verbatim>\<open>src/open_web_chat_id_pipe.py\<close> receives request and response bodies
  that were decoded from JSON. A body is a Python \<^verbatim>\<open>dict\<close> with string keys; its values
  are the JSON values below. Floating-point numbers are left out of the value type
  (timestamps, which the filter itself produces with \<^verbatim>\<open>time.time()\<close>, are reals).
\<close>

datatype pyval =
    PNone
  | PBool bool
  | PInt int
  | PStr pystr
  | PList "pyval list"
  | PDict "(pystr \<times> pyval) list"

type_synonym pydict = "(pystr \<times> pyval) list"

text \<open>The exceptions that the operations on these values can raise.\<close>

datatype error = TypeError | AttributeError | UnicodeEncodeError

text \<open>Python's truth test, as applied by \<^verbatim>\<open>if x\<close>, \<^verbatim>\<open>not x\<close>, \<^verbatim>\<open>x and y\<close>, \<^verbatim>\<open>x or y\<close>.\<close>

fun truthy :: "pyval \<Rightarrow> bool" where
  "truthy PNone = False"
| "truthy (PBool b) = b"
| "truthy (PInt i) = (i \<noteq> 0)"
| "truthy (PStr s) = (s \<noteq> [])"
| "truthy (PList xs) = (xs \<noteq> [])"
| "truthy (PDict d) = (d \<noteq> [])"

text \<open>
  Only hashable values can be dictionary keys; a list or a dict as a key raises
  \<^verbatim>\<open>TypeError: unhashable type\<close>, also in a membership test \<^verbatim>\<open>k in d\<close>.
\<close>

fun hashable :: "pyval \<Rightarrow> bool" where
  "hashable (PList xs) = False"
| "hashable (PDict d) = False"
| "hashable v = True"

text \<open>
  Keys are compared with \<^verbatim>\<open>==\<close>, under which \<^verbatim>\<open>True == 1\<close> and \<^verbatim>\<open>False == 0\<close>:
  \<open>hkey\<close> maps a key to the representative under which the registry stores it.
\<close>

fun hkey :: "pyval \<Rightarrow> pyval" where
  "hkey (PBool b) = PInt (if b then 1 else 0)"
| "hkey v = v"

text \<open>
  A dictionary is an association list in insertion order, looked up with \<open>map_of\<close>
  (\<^verbatim>\<open>k in d\<close> is \<open>map_of d k \<noteq> None\<close>). \<^verbatim>\<open>d.get(k, default)\<close>, \<^verbatim>\<open>d[k] = v\<close> (which keeps
  the position of an existing key and appends a new one) and \<^verbatim>\<open>d.values()\<close>:
\<close>

definition py_get :: "pydict \<Rightarrow> pystr \<Rightarrow> pyval \<Rightarrow> pyval" where
  "py_get d k dflt = (case map_of d k of None \<Rightarrow> dflt | Some v \<Rightarrow> v)"

definition dict_setitem :: "('k \<times> 'v) list \<Rightarrow> 'k \<Rightarrow> 'v \<Rightarrow> ('k \<times> 'v) list" where
  "dict_setitem d k v = AList.update k v d"

definition dict_values :: "('k \<times> 'v) list \<Rightarrow> 'v list" where
  "dict_values d = map snd d"

text \<open>
  \<^verbatim>\<open>for message in messages\<close>: a list yields its elements, a dict its keys, a string its
  characters as one-character strings; \<^verbatim>\<open>None\<close>, booleans and integers are not iterable.
\<close>

fun py_iter :: "pyval \<Rightarrow> error + pyval list" where
  "py_iter (PList xs) = Inr xs"
| "py_iter (PDict d) = Inr (map (\<lambda>kv. PStr (fst kv)) d)"
| "py_iter (PStr s) = Inr (map (\<lambda>c. PStr [c]) s)"
| "py_iter v = Inl TypeError"

text \<open>\<^verbatim>\<open>str(n)\<close> and \<^verbatim>\<open>f"{n}"\<close> for an integer: its decimal digits, with a sign.\<close>

definition digit_char :: "nat \<Rightarrow> char" where
  "digit_char d = ''0123456789'' ! d"

fun str_nat :: "nat \<Rightarrow> string" where
  "str_nat n = (if n < 10 then [digit_char n] else str_nat (n div 10) @ [digit_char (n mod 10)])"

declare str_nat.simps [simp del]

definition str_int :: "int \<Rightarrow> pystr" where
  "str_int i = py (if i < 0 then CHR ''-'' # str_nat (nat (- i)) else str_nat (nat i))"

text \<open>\<^verbatim>\<open>int(x)\<close> for a float truncates towards zero.\<close>

definition int_of_float :: "real \<Rightarrow> int" where
  "int_of_float x = (if 0 \<le> x then \<lfloor>x\<rfloor> else \<lceil>x\<rceil>)"

section \<open>The filter's state\<close>

text \<open>
  \<^verbatim>\<open>Filter.Valves\<close> with its defaults, the entries of \<^verbatim>\<open>_active_streams\<close> (a dict with the
  keys \<^verbatim>\<open>chat_id\<close>, \<^verbatim>\<open>start_time\<close>, \<^verbatim>\<open>active\<close> and, once set, \<^verbatim>\<open>end_time\<close>,
  \<^verbatim>\<open>stopped_by_user\<close>, \<^verbatim>\<open>stop_time\<close>), and the object built by \<^verbatim>\<open>__init__\<close>.
\<close>

record valves =
  priority :: int
  backend_url :: pystr
  stop_endpoint :: pystr

record stream_info =
  chat_id :: pyval
  start_time :: real
  active :: bool
  end_time :: "real option"
  stopped_by_user :: "bool option"
  stop_time :: "real option"

record filter_state =
  valves :: valves
  conversation_store :: "(pystr \<times> pystr) list"
  active_streams :: "(pyval \<times> stream_info) list"

definition Valves_default :: valves where
  "Valves_default =
     \<lparr>priority = 0, backend_url = py ''http://host.docker.internal:8081'', stop_endpoint = py ''/stop''\<rparr>"

definition Filter_init :: filter_state where
  "Filter_init = \<lparr>valves = Valves_default, conversation_store = [], active_streams = []\<rparr>"

section \<open>The fingerprint\<close>

text \<open>
  \<^verbatim>\<open>_hash_user_messages\<close> (lines 30 to 36). The parameter \<open>sha256\<close> gives, for a string
  \<open>s\<close> that can be encoded, \<^verbatim>\<open>hashlib.sha256(s.encode()).hexdigest()\<close>. A message that is
  not a dict has no \<^verbatim>\<open>get\<close>, and a content that is not a string has no \<^verbatim>\<open>encode\<close>: both
  raise \<^verbatim>\<open>AttributeError\<close>. A content that is a string with a surrogate makes \<^verbatim>\<open>encode\<close>
  raise \<^verbatim>\<open>UnicodeEncodeError\<close>.
\<close>

fun hash_loop :: "(pystr \<Rightarrow> pystr) \<Rightarrow> pyval list \<Rightarrow> error + pystr" where
  "hash_loop sha256 [] = Inr (sha256 [])"
| "hash_loop sha256 (message # rest) =
     (case message of
        PDict m \<Rightarrow>
          (if py_get m (py ''role'') PNone = PStr (py ''user'')
           then (case py_get m (py ''content'') (PStr []) of
                   PStr c \<Rightarrow> (if encodable c then Inr (sha256 c) else Inl UnicodeEncodeError)
                 | _ \<Rightarrow> Inl AttributeError)
           else hash_loop sha256 rest)
      | _ \<Rightarrow> Inl AttributeError)"

definition hash_user_messages :: "(pystr \<Rightarrow> pystr) \<Rightarrow> pyval \<Rightarrow> error + pystr" where
  "hash_user_messages sha256 messages =
     (case py_iter messages of
        Inl e \<Rightarrow> Inl e
      | Inr ms \<Rightarrow> hash_loop sha256 ms)"

section \<open>inlet\<close>

text \<open>
  Lines 42 to 52: the conversation identifier. \<open>uuid4\<close> is the string that
  \<^verbatim>\<open>str(uuid.uuid4())\<close> returns when it is called. The result is the body with its
  \<^verbatim>\<open>chat_id\<close> set, and the conversation store.
\<close>

definition resolve_chat_id ::
  "pystr \<Rightarrow> (pystr \<times> pystr) list \<Rightarrow> pystr \<Rightarrow> pydict \<Rightarrow> pydict \<times> (pystr \<times> pystr) list" where
  "resolve_chat_id uuid4 store conv_hash body =
     (let provided_chat_id = py_get body (py ''chat_id'') PNone in
      if truthy provided_chat_id \<and> provided_chat_id \<in> set (map PStr (dict_values store))
      then (dict_setitem body (py ''chat_id'') provided_chat_id, store)
      else (case map_of store conv_hash of
              Some stored \<Rightarrow> (dict_setitem body (py ''chat_id'') (PStr stored), store)
            | None \<Rightarrow>
                (dict_setitem body (py ''chat_id'') (PStr uuid4), dict_setitem store conv_hash uuid4)))"

text \<open>Lines 54 to 58: the session identifier; \<open>now\<close> is what \<^verbatim>\<open>time.time()\<close> returns.\<close>

definition assign_session_id :: "real \<Rightarrow> pydict \<Rightarrow> pyval \<times> pydict" where
  "assign_session_id now body =
     (let session_id = py_get body (py ''session_id'') PNone in
      if \<not> truthy session_id
      then (let generated = PStr (py ''session-'' @ str_int (int_of_float now))
            in (generated, dict_setitem body (py ''session_id'') generated))
      else (session_id, body))"

text \<open>
  The whole of \<^verbatim>\<open>inlet\<close> (lines 38 to 67). \<open>now1\<close> and \<open>now2\<close> are the two readings of the
  clock. An exception leaves the function with the state as mutated so far: the
  conversation store is updated before the registry entry is written.
\<close>

definition inlet ::
  "(pystr \<Rightarrow> pystr) \<Rightarrow> pystr \<Rightarrow> real \<Rightarrow> real \<Rightarrow> filter_state \<Rightarrow> pydict
     \<Rightarrow> (error + pydict) \<times> filter_state" where
  "inlet sha256 uuid4 now1 now2 self body =
     (case hash_user_messages sha256 (py_get body (py ''messages'') (PList [])) of
        Inl e \<Rightarrow> (Inl e, self)
      | Inr conv_hash \<Rightarrow>
          (let (body1, store1) = resolve_chat_id uuid4 (conversation_store self) conv_hash body;
               self1 = self\<lparr>conversation_store := store1\<rparr>;
               (session_id, body2) = assign_session_id now1 body1
           in if \<not> hashable session_id then (Inl TypeError, self1)
              else (Inr body2,
                    self1\<lparr>active_streams :=
                      dict_setitem (active_streams self1) (hkey session_id)
                        \<lparr>chat_id = py_get body2 (py ''chat_id'') PNone, start_time = now2,
                         active = True, end_time = None, stopped_by_user = None,
                         stop_time = None\<rparr>\<rparr>)))"

section \<open>outlet\<close>

text \<open>
  Lines 69 to 78. The membership test on the registry raises for an unhashable session
  identifier; it is reached only when the identifier is truthy.
\<close>

definition outlet :: "real \<Rightarrow> filter_state \<Rightarrow> pydict \<Rightarrow> (error + pydict) \<times> filter_state" where
  "outlet now self body =
     (let session_id = py_get body (py ''session_id'') PNone in
      if truthy session_id
      then (if \<not> hashable session_id then (Inl TypeError, self)
            else (case map_of (active_streams self) (hkey session_id) of
                    Some info \<Rightarrow>
                      (if truthy (py_get body (py ''done'') (PBool False))
                            \<or> truthy (py_get body (py ''stop_reason'') PNone)
                       then (Inr body,
                             self\<lparr>active_streams :=
                               dict_setitem (active_streams self) (hkey session_id)
                                 (info\<lparr>active := False, end_time := Some now\<rparr>)\<rparr>)
                       else (Inr body, self))
                  | None \<Rightarrow> (Inr body, self)))
      else (Inr body, self))"

section \<open>handle_stop\<close>

text \<open>
  Lines 80 to 111. \<^verbatim>\<open>requests.post\<close> either returns a response, of which the code reads
  the status code, or raises a \<^verbatim>\<open>RequestException\<close>, of which the code reads \<^verbatim>\<open>str(e)\<close>.
  \<open>backend\<close> is what the call does for the request it is given. The requests that were
  sent are returned next to the outcome and the state.
\<close>

record http_request =
  url :: pystr
  json :: pydict
  timeout :: nat

datatype http_result = Response int | RequestException pystr

record outcome =
  status :: pystr
  message :: pystr

definition handle_stop ::
  "(http_request \<Rightarrow> http_result) \<Rightarrow> real \<Rightarrow> filter_state \<Rightarrow> pystr
     \<Rightarrow> outcome \<times> filter_state \<times> http_request list" where
  "handle_stop backend now self session_id =
     (case map_of (active_streams self) (PStr session_id) of
        None \<Rightarrow> (\<lparr>status = py ''error'', message = py ''Session not found''\<rparr>, self, [])
      | Some info \<Rightarrow>
          (let stop_payload = [(py ''session_id'', PStr session_id), (py ''chat_id'', chat_id info)];
               request = \<lparr>url = backend_url (valves self) @ stop_endpoint (valves self),
                          json = stop_payload, timeout = 5\<rparr>
           in case backend request of
                Response status_code \<Rightarrow>
                  (if status_code = 200
                   then (\<lparr>status = py ''success'', message = py ''Stream stopped''\<rparr>,
                         self\<lparr>active_streams :=
                           dict_setitem (active_streams self) (PStr session_id)
                             (info\<lparr>active := False, stopped_by_user := Some True,
                                   stop_time := Some now\<rparr>)\<rparr>,
                         [request])
                   else (\<lparr>status = py ''error'',
                          message = py ''Backend returned '' @ str_int status_code\<rparr>,
                         self, [request]))
              | RequestException e \<Rightarrow>
                  (\<lparr>status = py ''error'', message = py ''Failed to reach backend: '' @ e\<rparr>,
                   self, [request])))"

section \<open>Sequences of calls\<close>

text \<open>
  The host calls the three entry points in any order, with any arguments. A call carries
  what the environment supplies to it: the identifier drawn by \<^verbatim>\<open>uuid.uuid4()\<close>, the
  readings of the clock and the behaviour of the backend.
\<close>

datatype call =
    Inlet pystr real real pydict
  | Outlet real pydict
  | HandleStop "http_request \<Rightarrow> http_result" real pystr

fun step :: "(pystr \<Rightarrow> pystr) \<Rightarrow> filter_state \<Rightarrow> call \<Rightarrow> filter_state" where
  "step sha256 self (Inlet uuid4 now1 now2 body) = snd (inlet sha256 uuid4 now1 now2 self body)"
| "step sha256 self (Outlet now body) = snd (outlet now self body)"
| "step sha256 self (HandleStop backend now session_id) =
     fst (snd (handle_stop backend now self session_id))"

definition run :: "(pystr \<Rightarrow> pystr) \<Rightarrow> filter_state \<Rightarrow> call list \<Rightarrow> filter_state" where
  "run sha256 self calls = foldl (step sha256) self calls"

text \<open>
  \<^verbatim>\<open>str(uuid.uuid4())\<close> is a string of 36 characters. The reachable states are those that
  the calls produce from a filter whose two dictionaries are empty (the valves are
  configured by the host).
\<close>

fun call_ok :: "call \<Rightarrow> bool" where
  "call_ok (Inlet uuid4 now1 now2 body) = (length uuid4 = 36)"
| "call_ok c = True"

inductive reachable :: "(pystr \<Rightarrow> pystr) \<Rightarrow> filter_state \<Rightarrow> bool" for sha256 where
  reachable_init:
    "conversation_store self = [] \<Longrightarrow> active_streams self = [] \<Longrightarrow> reachable sha256 self"
| reachable_step:
    "reachable sha256 self \<Longrightarrow> call_ok c \<Longrightarrow> reachable sha256 (step sha256 self c)"

section \<open>Notions of the specification\<close>

text \<open>
  The first message of a list whose role is \<^verbatim>\<open>user\<close>, as the specification describes the
  input of the fingerprint ("the first message whose role is user").
\<close>

fun first_user_message :: "pyval list \<Rightarrow> pydict option" where
  "first_user_message [] = None"
| "first_user_message (PDict m # rest) =
     (if py_get m (py ''role'') PNone = PStr (py ''user'') then Some m else first_user_message rest)"
| "first_user_message (v # rest) = first_user_message rest"

text \<open>
  The requests that inlet accepts, described from the outside. The messages are absent
  or can be iterated; every element before the first user message is an object; the
  content of the first user message, when there is one, is missing or is a string that
  can be encoded; the session identifier is absent, falsy or hashable.
\<close>

fun is_dict :: "pyval \<Rightarrow> bool" where
  "is_dict (PDict m) = True"
| "is_dict v = False"

fun is_user_message :: "pyval \<Rightarrow> bool" where
  "is_user_message (PDict m) = (py_get m (py ''role'') PNone = PStr (py ''user''))"
| "is_user_message v = False"

fun content_ok :: "pyval \<Rightarrow> bool" where
  "content_ok (PStr c) = encodable c"
| "content_ok v = False"

definition messages_ok :: "pyval list \<Rightarrow> bool" where
  "messages_ok ms =
     (list_all is_dict (takeWhile (\<lambda>v. \<not> is_user_message v) ms) \<and>
      (case first_user_message ms of
         None \<Rightarrow> True
       | Some m \<Rightarrow> content_ok (py_get m (py ''content'') (PStr []))))"

definition request_ok :: "pydict \<Rightarrow> bool" where
  "request_ok body =
     ((case py_iter (py_get body (py ''messages'') (PList [])) of
         Inl e \<Rightarrow> False
       | Inr ms \<Rightarrow> messages_ok ms) \<and>
      (truthy (py_get body (py ''session_id'') PNone)
         \<longrightarrow> hashable (py_get body (py ''session_id'') PNone)))"

text \<open>
  The invariant of the session registry: the conversation identifier of every entry is
  a value of the conversation store.
\<close>

definition registry_inv :: "filter_state \<Rightarrow> bool" where
  "registry_inv self =
     list_all (\<lambda>entry. chat_id (snd entry) \<in> set (map PStr (dict_values (conversation_store self))))
       (active_streams self)"

text \<open>
  Two facts about the reachable states that the proofs below use: no key of the registry
  is falsy, and no identifier in the conversation store is the empty string.
\<close>

definition keys_truthy :: "filter_state \<Rightarrow> bool" where
  "keys_truthy self = list_all truthy (map fst (active_streams self))"

definition values_nonempty :: "filter_state \<Rightarrow> bool" where
  "values_nonempty self = list_all (\<lambda>v. v \<noteq> []) (dict_values (conversation_store self))"

section \<open>Example requests and states\<close>

text \<open>
  The scenario of the specification: request A carries one user message "hi" and no
  identifiers; request B carries the same message and the session identifier "S2". In
  the examples the digest is the identity function, so that the fingerprint of "hi"
  reads "hi".
\<close>

definition uuid_x :: pystr where
  "uuid_x = py ''11111111-1111-4111-8111-111111111111''"

definition uuid_y :: pystr where
  "uuid_y = py ''22222222-2222-4222-8222-222222222222''"

definition messages_of :: "pystr \<Rightarrow> pyval" where
  "messages_of c = PList [PDict [(py ''role'', PStr (py ''user'')), (py ''content'', PStr c)]]"

definition request_a :: pydict where
  "request_a = [(py ''messages'', messages_of (py ''hi''))]"

definition request_b :: pydict where
  "request_b = [(py ''messages'', messages_of (py ''hi'')), (py ''session_id'', PStr (py ''S2''))]"

definition entry_of :: "pystr \<Rightarrow> real \<Rightarrow> stream_info" where
  "entry_of cid t = \<lparr>chat_id = PStr cid, start_time = t, active = True, end_time = None,
     stopped_by_user = None, stop_time = None\<rparr>"

text \<open>The state after request A at time 10, and after request B at time 20.\<close>

definition state_a :: filter_state where
  "state_a = \<lparr>valves = Valves_default, conversation_store = [(py ''hi'', uuid_x)],
     active_streams = [(PStr (py ''session-10''), entry_of uuid_x 10)]\<rparr>"

definition state_b :: filter_state where
  "state_b = \<lparr>valves = Valves_default, conversation_store = [(py ''hi'', uuid_x)],
     active_streams =
       [(PStr (py ''session-10''), entry_of uuid_x 10), (PStr (py ''S2''), entry_of uuid_x 20)]\<rparr>"

text \<open>A request whose user message has a list of content parts, as multimodal chats send.\<close>

definition request_parts :: pydict where
  "request_parts = [(py ''messages'',
     PList [PDict [(py ''role'', PStr (py ''user'')),
                   (py ''content'',
                    PList [PDict [(py ''type'', PStr (py ''text'')), (py ''text'', PStr (py ''hi''))]])]])]"

text \<open>A request whose user message holds a surrogate on its own.\<close>

definition request_surrogate :: pydict where
  "request_surrogate = [(py ''messages'',
     PList [PDict [(py ''role'', PStr (py ''user'')), (py ''content'', PStr [55296])]])]"

text \<open>A response whose session identifier is a list.\<close>

definition finish_list :: pydict where
  "finish_list = [(py ''session_id'', PList [PStr (py ''session-10'')]), (py ''done'', PBool True)]"

text \<open>The response that ends the stream of request A, and the stop request for it.\<close>

definition finish_a :: pydict where
  "finish_a = [(py ''session_id'', PStr (py ''session-10'')), (py ''done'', PBool True)]"

definition stop_request_a :: http_request where
  "stop_request_a = \<lparr>url = py ''http://host.docker.internal:8081/stop'',
     json = [(py ''session_id'', PStr (py ''session-10'')), (py ''chat_id'', PStr uuid_x)], timeout = 5\<rparr>"

text \<open>
  A request that carries the identifier issued to request A with another message, the
  same message without an identifier, and the states after each (at times 30 and 40).
\<close>

definition request_c :: pydict where
  "request_c = [(py ''messages'', messages_of (py ''other'')), (py ''chat_id'', PStr uuid_x)]"

definition request_d :: pydict where
  "request_d = [(py ''messages'', messages_of (py ''other''))]"

definition state_c :: filter_state where
  "state_c = \<lparr>valves = Valves_default, conversation_store = [(py ''hi'', uuid_x)],
     active_streams =
       [(PStr (py ''session-10''), entry_of uuid_x 10), (PStr (py ''session-30''), entry_of uuid_x 30)]\<rparr>"

definition state_d :: filter_state where
  "state_d = \<lparr>valves = Valves_default,
     conversation_store = [(py ''hi'', uuid_x), (py ''other'', uuid_y)],
     active_streams =
       [(PStr (py ''session-10''), entry_of uuid_x 10), (PStr (py ''session-30''), entry_of uuid_x 30),
        (PStr (py ''session-40''), entry_of uuid_y 40)]\<rparr>"

section \<open>Strings of the source text\<close>

lemma py_eq_iff [simp]: "py s = py t \<longleftrightarrow> s = t"
  by (simp add: py_def inj_map_eq_map inj_of_char)

lemma py_Nil [simp]: "py [] = []"
  by (simp add: py_def)

lemma py_eq_Nil [simp]: "py s = [] \<longleftrightarrow> s = []"
  by (simp add: py_def)

lemma length_py [simp]: "length (py s) = length s"
  by (simp add: py_def)

lemma py_append [simp]: "py s @ py t = py (s @ t)"
  by (simp add: py_def)

lemma py_encodable [simp]: "encodable (py s)"
proof -
  have "\<not> is_surrogate (of_char c)" for c :: char
  proof -
    have "(of_char c :: nat) < 256" by simp
    then show ?thesis unfolding is_surrogate_def by linarith
  qed
  then show ?thesis by (simp add: encodable_def py_def list_ex_iff)
qed

section \<open>Dictionary lemmas\<close>

lemma map_of_dict_setitem: "map_of (dict_setitem d k v) = (map_of d)(k \<mapsto> v)"
  by (simp add: dict_setitem_def update_conv')

lemma dict_setitem_append: "map_of d k = None \<Longrightarrow> dict_setitem d k v = d @ [(k, v)]"
  unfolding dict_setitem_def by (induction d) (auto split: if_splits)

lemma py_get_setitem:
  "py_get (dict_setitem d k v) k' dflt = (if k' = k then v else py_get d k' dflt)"
  by (simp add: py_get_def map_of_dict_setitem)

lemma dict_setitem_keys:
  "map_of d k = Some v0 \<Longrightarrow> map fst (dict_setitem d k v) = map fst d"
  by (auto simp: dict_setitem_def update_keys dest: map_of_SomeD intro: rev_image_eqI)

lemma set_dict_setitem: "set (dict_setitem d k v) \<subseteq> insert (k, v) (set d)"
  unfolding dict_setitem_def by (induction d) auto

lemma keys_dict_setitem: "set (map fst (dict_setitem d k v)) = insert k (set (map fst d))"
  unfolding dict_setitem_def by (induction d) auto

lemma hkey_truthy: "truthy (hkey v) = truthy v"
  by (cases v) auto

section \<open>The fingerprint of a list of messages\<close>

lemma hash_loop_first_user:
  assumes "hash_loop sha256 ms = Inr h" and "first_user_message ms = Some m"
  shows "\<exists>c. py_get m (py ''content'') (PStr []) = PStr c \<and> h = sha256 c"
  using assms
proof (induction ms)
  case Nil
  then show ?case by simp
next
  case (Cons message rest)
  then show ?case
    by (cases message) (auto split: if_splits pyval.splits)
qed

lemma hash_loop_no_user:
  assumes "hash_loop sha256 ms = Inr h" and "first_user_message ms = None"
  shows "h = sha256 []"
  using assms
proof (induction ms)
  case Nil
  then show ?case by simp
next
  case (Cons message rest)
  then show ?case
    by (cases message) (auto split: if_splits pyval.splits)
qed

lemma hash_loop_returns_iff: "(\<exists>h. hash_loop sha256 ms = Inr h) \<longleftrightarrow> messages_ok ms"
proof (induction ms)
  case Nil
  then show ?case by (simp add: messages_ok_def)
next
  case (Cons message rest)
  show ?case
  proof (cases message)
    case (PDict m)
    show ?thesis
    proof (cases "py_get m (py ''role'') PNone = PStr (py ''user'')")
      case True
      with PDict show ?thesis
        by (cases "py_get m (py ''content'') (PStr [])") (simp_all add: messages_ok_def)
    next
      case False
      with PDict Cons.IH show ?thesis by (simp add: messages_ok_def)
    qed
  qed (simp_all add: messages_ok_def)
qed

section \<open>The steps of inlet\<close>

lemma resolve_chat_id_store:
  "snd (resolve_chat_id uuid4 store conv_hash body) = store \<or>
   (map_of store conv_hash = None \<and>
    snd (resolve_chat_id uuid4 store conv_hash body) = store @ [(conv_hash, uuid4)])"
  by (auto simp: resolve_chat_id_def Let_def dict_setitem_append split: option.splits)

lemma resolve_chat_id_issued:
  "py_get (fst (resolve_chat_id uuid4 store conv_hash body)) (py ''chat_id'') PNone
     \<in> set (map PStr (dict_values (snd (resolve_chat_id uuid4 store conv_hash body))))"
  by (auto simp: resolve_chat_id_def Let_def dict_setitem_append py_get_setitem dict_values_def
      split: option.splits dest!: map_of_SomeD intro!: image_eqI)

lemma assign_session_id_chat_id:
  "py_get (snd (assign_session_id now body)) (py ''chat_id'') PNone = py_get body (py ''chat_id'') PNone"
  by (simp add: assign_session_id_def Let_def py_get_setitem)

lemma assign_session_id_fst:
  "fst (assign_session_id now body) = py_get (snd (assign_session_id now body)) (py ''session_id'') PNone"
  by (simp add: assign_session_id_def Let_def py_get_setitem)

lemma assign_session_id_truthy: "truthy (fst (assign_session_id now body))"
  by (simp add: assign_session_id_def Let_def)

lemma inlet_unfold:
  assumes "hash_user_messages sha256 (py_get body (py ''messages'') (PList [])) = Inr conv_hash"
  shows "inlet sha256 uuid4 now1 now2 self body =
     (let r = resolve_chat_id uuid4 (conversation_store self) conv_hash body;
          a = assign_session_id now1 (fst r)
      in if \<not> hashable (fst a) then (Inl TypeError, self\<lparr>conversation_store := snd r\<rparr>)
         else (Inr (snd a),
               self\<lparr>conversation_store := snd r,
                    active_streams :=
                      dict_setitem (active_streams self) (hkey (fst a))
                        \<lparr>chat_id = py_get (snd a) (py ''chat_id'') PNone, start_time = now2,
                         active = True, end_time = None, stopped_by_user = None,
                         stop_time = None\<rparr>\<rparr>))"
  using assms by (simp add: inlet_def Let_def split: prod.splits)

lemma inlet_raise_hash:
  assumes "hash_user_messages sha256 (py_get body (py ''messages'') (PList [])) = Inl e"
  shows "inlet sha256 uuid4 now1 now2 self body = (Inl e, self)"
  using assms by (simp add: inlet_def)

lemma inlet_returns_hash:
  assumes "inlet sha256 uuid4 now1 now2 self body = (Inr body', self')"
  shows "\<exists>h. hash_user_messages sha256 (py_get body (py ''messages'') (PList [])) = Inr h"
  using assms by (cases "hash_user_messages sha256 (py_get body (py ''messages'') (PList []))")
    (simp_all add: inlet_raise_hash)

lemma inlet_without_chat_id:
  assumes "hash_user_messages sha256 (py_get body (py ''messages'') (PList [])) = Inr h"
    and "py_get body (py ''chat_id'') PNone = PNone"
    and "inlet sha256 uuid4 now1 now2 self body = (Inr body', self')"
  shows "\<exists>x. py_get body' (py ''chat_id'') PNone = PStr x \<and>
             map_of (conversation_store self') h = Some x \<and>
             (\<forall>y. map_of (conversation_store self) h = Some y \<longrightarrow> x = y)"
  using assms(2,3)
  by (auto simp: inlet_unfold [OF assms(1)] Let_def resolve_chat_id_def assign_session_id_chat_id
      py_get_setitem map_of_dict_setitem split: if_splits option.splits)

section \<open>The conversation store only grows\<close>

lemma inlet_store_append:
  "\<exists>ext. conversation_store (snd (inlet sha256 uuid4 now1 now2 self body))
      = conversation_store self @ ext"
proof (cases "hash_user_messages sha256 (py_get body (py ''messages'') (PList []))")
  case (Inl e)
  then show ?thesis by (simp add: inlet_raise_hash)
next
  case (Inr h)
  show ?thesis
    using resolve_chat_id_store [of uuid4 "conversation_store self" h body]
    by (auto simp: inlet_unfold [OF Inr] Let_def)
qed

lemma outlet_store: "conversation_store (snd (outlet now self body)) = conversation_store self"
  by (simp add: outlet_def Let_def split: option.splits)

lemma handle_stop_store:
  "conversation_store (fst (snd (handle_stop backend now self sid))) = conversation_store self"
  by (simp add: handle_stop_def Let_def split: option.splits http_result.splits)

lemma step_store_append:
  "\<exists>ext. conversation_store (step sha256 self c) = conversation_store self @ ext"
  by (cases c) (simp_all add: inlet_store_append outlet_store handle_stop_store)

lemma run_store_append:
  "\<exists>ext. conversation_store (run sha256 self calls) = conversation_store self @ ext"
  unfolding run_def
proof (induction calls arbitrary: self)
  case Nil
  then show ?case by simp
next
  case (Cons c calls)
  obtain e1 where e1: "conversation_store (step sha256 self c) = conversation_store self @ e1"
    using step_store_append by blast
  obtain e2 where "conversation_store (foldl (step sha256) (step sha256 self c) calls)
      = conversation_store (step sha256 self c) @ e2"
    using Cons.IH by blast
  with e1 show ?case by simp
qed

section \<open>Invariants of the reachable states\<close>

lemma inlet_keys_truthy:
  "keys_truthy self \<Longrightarrow> keys_truthy (snd (inlet sha256 uuid4 now1 now2 self body))"
proof (cases "hash_user_messages sha256 (py_get body (py ''messages'') (PList []))")
  case (Inl e)
  assume "keys_truthy self"
  with Inl show ?thesis by (simp add: inlet_raise_hash)
next
  case (Inr h)
  assume "keys_truthy self"
  then show ?thesis
    by (auto simp: inlet_unfold [OF Inr] Let_def keys_truthy_def list_all_iff
        keys_dict_setitem hkey_truthy assign_session_id_truthy simp del: set_map)
qed

lemma outlet_keys_truthy: "keys_truthy self \<Longrightarrow> keys_truthy (snd (outlet now self body))"
  by (auto simp: outlet_def Let_def keys_truthy_def list_all_iff keys_dict_setitem hkey_truthy
      simp del: set_map split: option.splits)

lemma handle_stop_keys:
  "map fst (active_streams (fst (snd (handle_stop backend now self sid))))
     = map fst (active_streams self)"
  by (auto simp: handle_stop_def Let_def dict_setitem_keys
      split: option.splits http_result.splits)

lemma handle_stop_keys_truthy:
  "keys_truthy self \<Longrightarrow> keys_truthy (fst (snd (handle_stop backend now self sid)))"
  using handle_stop_keys [of backend now self sid]
  by (simp add: keys_truthy_def)

lemma inlet_values_nonempty:
  "values_nonempty self \<Longrightarrow> uuid4 \<noteq> [] \<Longrightarrow>
   values_nonempty (snd (inlet sha256 uuid4 now1 now2 self body))"
proof (cases "hash_user_messages sha256 (py_get body (py ''messages'') (PList []))")
  case (Inl e)
  assume "values_nonempty self"
  with Inl show ?thesis by (simp add: inlet_raise_hash)
next
  case (Inr h)
  assume "values_nonempty self" "uuid4 \<noteq> []"
  then show ?thesis
    using resolve_chat_id_store [of uuid4 "conversation_store self" h body]
    by (auto simp: inlet_unfold [OF Inr] Let_def values_nonempty_def dict_values_def list_all_iff)
qed

lemma reachable_invariants: "reachable sha256 self \<Longrightarrow> keys_truthy self \<and> values_nonempty self"
proof (induction rule: reachable.induct)
  case (reachable_init self)
  then show ?case by (simp add: keys_truthy_def values_nonempty_def dict_values_def)
next
  case (reachable_step self c)
  then show ?case
  proof (cases c)
    case (Inlet u t1 t2 b)
    with reachable_step have "u \<noteq> []" by auto
    with Inlet reachable_step show ?thesis
      by (simp add: inlet_keys_truthy inlet_values_nonempty)
  next
    case (Outlet t b)
    with reachable_step show ?thesis
      by (simp add: outlet_keys_truthy outlet_store values_nonempty_def)
  next
    case (HandleStop f t sid)
    with reachable_step show ?thesis
      by (simp add: handle_stop_keys_truthy handle_stop_store values_nonempty_def)
  qed
qed

lemma falsy_not_registered:
  assumes "keys_truthy self" "\<not> truthy sid"
  shows "map_of (active_streams self) (hkey sid) = None"
proof (rule ccontr)
  assume "map_of (active_streams self) (hkey sid) \<noteq> None"
  then obtain info where "(hkey sid, info) \<in> set (active_streams self)"
    by (auto dest: map_of_SomeD)
  then have "hkey sid \<in> set (map fst (active_streams self))" by force
  with assms(1) have "truthy (hkey sid)" by (simp add: keys_truthy_def list_all_iff del: set_map)
  with assms(2) show False by (simp add: hkey_truthy)
qed

lemma provided_truthy:
  assumes "values_nonempty self"
    and "v \<in> set (map PStr (dict_values (conversation_store self)))"
  shows "truthy v"
  using assms by (auto simp: values_nonempty_def list_all_iff)

lemma registry_inv_iff:
  "registry_inv self \<longleftrightarrow>
     (\<forall>entry \<in> set (active_streams self).
        chat_id (snd entry) \<in> PStr ` set (dict_values (conversation_store self)))"
  by (simp add: registry_inv_def list_all_iff)

lemma inlet_registry_inv:
  assumes "registry_inv self"
  shows "registry_inv (snd (inlet sha256 uuid4 now1 now2 self body))"
proof (cases "hash_user_messages sha256 (py_get body (py ''messages'') (PList []))")
  case (Inl e)
  with assms show ?thesis by (simp add: inlet_raise_hash)
next
  case (Inr h)
  define r where "r = resolve_chat_id uuid4 (conversation_store self) h body"
  define a where "a = assign_session_id now1 (fst r)"
  have sub: "set (dict_values (conversation_store self)) \<subseteq> set (dict_values (snd r))"
    using resolve_chat_id_store [of uuid4 "conversation_store self" h body]
    by (auto simp: r_def dict_values_def)
  have old: "\<forall>entry \<in> set (active_streams self). chat_id (snd entry) \<in> PStr ` set (dict_values (snd r))"
    using assms sub by (auto simp: registry_inv_iff)
  have new: "py_get (snd a) (py ''chat_id'') PNone \<in> PStr ` set (dict_values (snd r))"
    using resolve_chat_id_issued [of uuid4 "conversation_store self" h body]
    by (simp add: a_def r_def assign_session_id_chat_id)
  show ?thesis
  proof (cases "hashable (fst a)")
    case False
    then show ?thesis
      using old by (simp add: inlet_unfold [OF Inr] Let_def registry_inv_iff r_def [symmetric] a_def [symmetric])
  next
    case True
    have "\<And>entry k v. entry \<in> set (dict_setitem (active_streams self) k v) \<Longrightarrow>
          entry = (k, v) \<or> entry \<in> set (active_streams self)"
      using set_dict_setitem by fastforce
    then show ?thesis
      using old new True
      by (fastforce simp: inlet_unfold [OF Inr] Let_def registry_inv_iff r_def [symmetric] a_def [symmetric])
  qed
qed

lemma outlet_registry_inv:
  assumes "registry_inv self"
  shows "registry_inv (snd (outlet now self body))"
proof -
  have "\<And>entry k v. entry \<in> set (dict_setitem (active_streams self) k v) \<Longrightarrow>
        entry = (k, v) \<or> entry \<in> set (active_streams self)"
    using set_dict_setitem by fastforce
  then show ?thesis
    using assms
    by (fastforce simp: outlet_def Let_def registry_inv_iff split: option.splits dest: map_of_SomeD)
qed

lemma handle_stop_registry_inv:
  assumes "registry_inv self"
  shows "registry_inv (fst (snd (handle_stop backend now self sid)))"
proof -
  have "\<And>entry k v. entry \<in> set (dict_setitem (active_streams self) k v) \<Longrightarrow>
        entry = (k, v) \<or> entry \<in> set (active_streams self)"
    using set_dict_setitem by fastforce
  then show ?thesis
    using assms
    by (fastforce simp: handle_stop_def Let_def registry_inv_iff
        split: option.splits http_result.splits dest: map_of_SomeD)
qed

lemma step_registry_inv: "registry_inv self \<Longrightarrow> registry_inv (step sha256 self c)"
  by (cases c) (simp_all add: inlet_registry_inv outlet_registry_inv handle_stop_registry_inv)

lemma reachable_registry_inv: "reachable sha256 self \<Longrightarrow> registry_inv self"
proof (induction rule: reachable.induct)
  case (reachable_init self)
  then show ?case by (simp add: registry_inv_def)
next
  case (reachable_step self c)
  then show ?case by (simp add: step_registry_inv)
qed

section \<open>The examples, evaluated\<close>

lemmas example_defs = uuid_x_def uuid_y_def messages_of_def request_a_def request_b_def
  entry_of_def state_a_def state_b_def state_c_def state_d_def request_c_def request_d_def
  Filter_init_def Valves_default_def

lemmas model_defs = inlet_def hash_user_messages_def py_get_def resolve_chat_id_def
  assign_session_id_def dict_setitem_def dict_values_def Let_def int_of_float_def
  str_int_def str_nat.simps digit_char_def

lemma hash_request_a:
  "hash_user_messages id (py_get request_a (py ''messages'') (PList [])) = Inr (py ''hi'')"
  by (simp add: example_defs hash_user_messages_def py_get_def)

lemma hash_request_b:
  "hash_user_messages id (py_get request_b (py ''messages'') (PList [])) = Inr (py ''hi'')"
  by (simp add: example_defs hash_user_messages_def py_get_def)

lemma inlet_request_a:
  "inlet id uuid_x 10 10 Filter_init request_a =
     (Inr (request_a @ [(py ''chat_id'', PStr uuid_x), (py ''session_id'', PStr (py ''session-10''))]), state_a)"
  by (simp add: example_defs model_defs)

lemma inlet_request_b:
  "inlet id uuid_y 20 20 state_a request_b =
     (Inr (request_b @ [(py ''chat_id'', PStr uuid_x)]), state_b)"
  by (simp add: example_defs model_defs)

lemma reachable_state_a: "reachable id state_a"
proof -
  have "reachable id Filter_init"
    by (rule reachable_init) (simp_all add: Filter_init_def)
  then have "reachable id (step id Filter_init (Inlet uuid_x 10 10 request_a))"
    by (rule reachable_step) (simp add: uuid_x_def)
  then show ?thesis by (simp add: inlet_request_a)
qed

lemma state_a_entry:
  "map_of (active_streams state_a) (PStr (py ''session-10'')) = Some (entry_of uuid_x 10)"
  by (simp add: state_a_def)

lemma stop_request_a_eq:
  "stop_request_a = \<lparr>url = backend_url (valves state_a) @ stop_endpoint (valves state_a),
     json = [(py ''session_id'', PStr (py ''session-10'')), (py ''chat_id'', chat_id (entry_of uuid_x 10))],
     timeout = 5\<rparr>"
  by (simp add: stop_request_a_def state_a_def Valves_default_def entry_of_def)

lemma inlet_request_c:
  "inlet id uuid_y 30 30 state_a request_c =
     (Inr (request_c @ [(py ''session_id'', PStr (py ''session-30''))]), state_c)"
  by (simp add: example_defs model_defs)

lemma inlet_request_d:
  "inlet id uuid_y 40 40 state_c request_d =
     (Inr (request_d @ [(py ''chat_id'', PStr uuid_y), (py ''session_id'', PStr (py ''session-40''))]),
      state_d)"
  by (simp add: example_defs model_defs)

section \<open>The conversation identifier\<close>

text \<open>
  C1. In a reachable state, for a request whose fingerprint is computed and on which
  inlet returns, the conversation identifier written into the body is decided in this
  order: when the identifier that the body supplies is a value of the conversation
  store, it is that identifier, and the store is unchanged; otherwise, when the
  fingerprint is a key of the store, it is the identifier stored for the fingerprint, and
  the store is unchanged; otherwise it is the freshly drawn identifier, which is added
  to the store under the fingerprint.
\<close>

theorem inlet_chat_id_priority:
  assumes "reachable sha256 self"
    and "hash_user_messages sha256 (py_get body (py ''messages'') (PList [])) = Inr conv_hash"
    and "inlet sha256 uuid4 now1 now2 self body = (Inr body', self')"
  shows "if py_get body (py ''chat_id'') PNone \<in> set (map PStr (dict_values (conversation_store self)))
         then py_get body' (py ''chat_id'') PNone = py_get body (py ''chat_id'') PNone \<and>
              conversation_store self' = conversation_store self
         else (case map_of (conversation_store self) conv_hash of
                 Some stored \<Rightarrow>
                   py_get body' (py ''chat_id'') PNone = PStr stored \<and>
                   conversation_store self' = conversation_store self
               | None \<Rightarrow>
                   py_get body' (py ''chat_id'') PNone = PStr uuid4 \<and>
                   conversation_store self' = conversation_store self @ [(conv_hash, uuid4)])"
proof -
  have ne: "values_nonempty self" using assms(1) reachable_invariants by blast
  define r where "r = resolve_chat_id uuid4 (conversation_store self) conv_hash body"
  have b: "py_get body' (py ''chat_id'') PNone = py_get (fst r) (py ''chat_id'') PNone"
    and s: "conversation_store self' = snd r"
    using assms(3)
    by (auto simp: inlet_unfold [OF assms(2)] Let_def r_def assign_session_id_chat_id
        split: if_splits)
  show ?thesis
  proof (cases "py_get body (py ''chat_id'') PNone
      \<in> set (map PStr (dict_values (conversation_store self)))")
    case True
    then have "truthy (py_get body (py ''chat_id'') PNone)" using ne provided_truthy by blast
    with True show ?thesis
      by (simp add: b s r_def resolve_chat_id_def Let_def py_get_setitem)
  next
    case False
    then show ?thesis
      by (simp add: b s r_def resolve_chat_id_def Let_def py_get_setitem dict_setitem_append
          split: option.splits)
  qed
qed

theorem inlet_chat_id_priority_witness:
  "reachable id Filter_init \<and>
   inlet id uuid_x 10 10 Filter_init request_a =
     (Inr (request_a @ [(py ''chat_id'', PStr uuid_x), (py ''session_id'', PStr (py ''session-10''))]),
      state_a) \<and>
   py_get (request_a @ [(py ''chat_id'', PStr uuid_x), (py ''session_id'', PStr (py ''session-10''))])
     (py ''chat_id'') PNone = PStr uuid_x \<and>
   conversation_store state_a = conversation_store Filter_init @ [(py ''hi'', uuid_x)]"
proof -
  have r: "reachable id Filter_init"
    by (rule reachable_init) (simp_all add: Filter_init_def)
  show ?thesis
    using r inlet_request_a inlet_chat_id_priority [OF r hash_request_a inlet_request_a]
    by (simp add: Filter_init_def dict_values_def py_get_def request_a_def)
qed

text \<open>
  C2. Two requests whose first user message has the same content, and which carry no
  conversation identifier, get the same conversation identifier from inlet, from
  whatever state the first call starts and whatever calls are made between the two.
\<close>

theorem same_content_same_chat_id:
  assumes "py_get bodyA (py ''messages'') (PList []) = PList msA"
    and "py_get bodyB (py ''messages'') (PList []) = PList msB"
    and "first_user_message msA = Some mA"
    and "first_user_message msB = Some mB"
    and "py_get mA (py ''content'') (PStr []) = py_get mB (py ''content'') (PStr [])"
    and "py_get bodyA (py ''chat_id'') PNone = PNone"
    and "py_get bodyB (py ''chat_id'') PNone = PNone"
    and "inlet sha256 uuidA nowA1 nowA2 self bodyA = (Inr bodyA', self1)"
    and "inlet sha256 uuidB nowB1 nowB2 (run sha256 self1 calls) bodyB = (Inr bodyB', self2)"
  shows "py_get bodyA' (py ''chat_id'') PNone = py_get bodyB' (py ''chat_id'') PNone"
proof -
  obtain hA where hA: "hash_user_messages sha256 (py_get bodyA (py ''messages'') (PList [])) = Inr hA"
    using assms(8) inlet_returns_hash by blast
  obtain hB where hB: "hash_user_messages sha256 (py_get bodyB (py ''messages'') (PList [])) = Inr hB"
    using assms(9) inlet_returns_hash by blast
  from hA assms(1) have "hash_loop sha256 msA = Inr hA" by (simp add: hash_user_messages_def)
  then obtain cA where cA: "py_get mA (py ''content'') (PStr []) = PStr cA" "hA = sha256 cA"
    using assms(3) hash_loop_first_user by blast
  from hB assms(2) have "hash_loop sha256 msB = Inr hB" by (simp add: hash_user_messages_def)
  then obtain cB where cB: "py_get mB (py ''content'') (PStr []) = PStr cB" "hB = sha256 cB"
    using assms(4) hash_loop_first_user by blast
  from cA cB assms(5) have same: "hB = hA" by simp
  obtain x where x: "py_get bodyA' (py ''chat_id'') PNone = PStr x"
      "map_of (conversation_store self1) hA = Some x"
    using inlet_without_chat_id [OF hA assms(6) assms(8)] by blast
  obtain ext where "conversation_store (run sha256 self1 calls) = conversation_store self1 @ ext"
    using run_store_append by blast
  with x(2) have kept: "map_of (conversation_store (run sha256 self1 calls)) hA = Some x"
    by (simp add: map_add_Some_iff)
  obtain y where y: "py_get bodyB' (py ''chat_id'') PNone = PStr y"
      "\<forall>z. map_of (conversation_store (run sha256 self1 calls)) hB = Some z \<longrightarrow> y = z"
    using inlet_without_chat_id [OF hB assms(7) assms(9)] by blast
  from y(2) kept same have "y = x" by simp
  with x(1) y(1) show ?thesis by simp
qed

theorem same_content_same_chat_id_witness:
  "inlet id uuid_x 10 10 Filter_init request_a =
     (Inr (request_a @ [(py ''chat_id'', PStr uuid_x), (py ''session_id'', PStr (py ''session-10''))]),
      state_a) \<and>
   inlet id uuid_y 20 20 (run id state_a [Outlet 11 [(py ''session_id'', PStr (py ''nobody''))]])
     request_b = (Inr (request_b @ [(py ''chat_id'', PStr uuid_x)]), state_b) \<and>
   py_get (request_a @ [(py ''chat_id'', PStr uuid_x), (py ''session_id'', PStr (py ''session-10''))])
     (py ''chat_id'') PNone =
   py_get (request_b @ [(py ''chat_id'', PStr uuid_x)]) (py ''chat_id'') PNone"
proof -
  have run: "run id state_a [Outlet 11 [(py ''session_id'', PStr (py ''nobody''))]] = state_a"
    by (simp add: run_def outlet_def py_get_def state_a_def Let_def)
  have b: "inlet id uuid_y 20 20 (run id state_a [Outlet 11 [(py ''session_id'', PStr (py ''nobody''))]])
      request_b = (Inr (request_b @ [(py ''chat_id'', PStr uuid_x)]), state_b)"
    by (simp only: run inlet_request_b)
  have m: "py_get request_a (py ''messages'') (PList []) =
      PList [PDict [(py ''role'', PStr (py ''user'')), (py ''content'', PStr (py ''hi''))]]"
    "py_get request_b (py ''messages'') (PList []) =
      PList [PDict [(py ''role'', PStr (py ''user'')), (py ''content'', PStr (py ''hi''))]]"
    by (simp_all add: example_defs py_get_def)
  have f: "first_user_message [PDict [(py ''role'', PStr (py ''user'')), (py ''content'', PStr (py ''hi''))]]
     = Some [(py ''role'', PStr (py ''user'')), (py ''content'', PStr (py ''hi''))]"
    by (simp add: py_get_def)
  have c: "py_get request_a (py ''chat_id'') PNone = PNone" "py_get request_b (py ''chat_id'') PNone = PNone"
    by (simp_all add: example_defs py_get_def)
  show ?thesis
    using inlet_request_a b
      same_content_same_chat_id [OF m(1) m(2) f f refl c(1) c(2) inlet_request_a b]
    by simp
qed

text \<open>
  C3. The conversation store is append-only: whatever calls of inlet, outlet and
  handle_stop follow, with whatever arguments, the store afterwards is the store before
  with entries added at its end, and a fingerprint that had an identifier keeps it.
\<close>

theorem conversation_store_append_only:
  "(\<exists>ext. conversation_store (run sha256 self calls) = conversation_store self @ ext) \<and>
   (map_of (conversation_store self) conv_hash = Some cid \<longrightarrow>
      map_of (conversation_store (run sha256 self calls)) conv_hash = Some cid)"
proof -
  obtain ext where "conversation_store (run sha256 self calls) = conversation_store self @ ext"
    using run_store_append by blast
  then show ?thesis by (auto simp: map_add_Some_iff)
qed

theorem conversation_store_append_only_witness:
  "map_of (conversation_store state_a) (py ''hi'') = Some uuid_x \<and>
   map_of (conversation_store
     (run id state_a
        [Inlet uuid_y 30 30 request_d, Outlet 31 finish_a,
         HandleStop (\<lambda>r. Response 200) 32 (py ''session-10'')])) (py ''hi'') = Some uuid_x"
  using conversation_store_append_only
    [of id state_a "[Inlet uuid_y 30 30 request_d, Outlet 31 finish_a,
         HandleStop (\<lambda>r. Response 200) 32 (py ''session-10'')]" "(py ''hi'')" uuid_x]
  by (simp add: state_a_def)

section \<open>Failure paths of inlet\<close>

lemma inlet_returns_ok:
  assumes "request_ok body"
  shows "\<exists>body' self'.
     inlet sha256 uuid4 now1 now2 self body = (Inr body', self') \<and>
     py_get body' (py ''chat_id'') PNone
       \<in> set (map PStr (dict_values (conversation_store self'))) \<and>
     py_get body' (py ''session_id'') PNone =
       (if truthy (py_get body (py ''session_id'') PNone)
        then py_get body (py ''session_id'') PNone
        else PStr (py ''session-'' @ str_int (int_of_float now1)))"
proof -
  define session_id where "session_id = py_get body (py ''session_id'') PNone"
  from assms obtain ms where ms: "py_iter (py_get body (py ''messages'') (PList [])) = Inr ms"
    and ok: "messages_ok ms"
    by (auto simp: request_ok_def split: sum.splits)
  from assms have hyp: "truthy session_id \<longrightarrow> hashable session_id"
    by (simp add: request_ok_def session_id_def)
  obtain h where hl: "hash_loop sha256 ms = Inr h"
    using ok hash_loop_returns_iff by blast
  then have h: "hash_user_messages sha256 (py_get body (py ''messages'') (PList [])) = Inr h"
    by (simp add: ms hash_user_messages_def)
  define r where "r = resolve_chat_id uuid4 (conversation_store self) h body"
  have sid: "py_get (fst r) (py ''session_id'') PNone = session_id"
    by (simp add: r_def session_id_def resolve_chat_id_def Let_def py_get_setitem
        split: option.splits)
  have hs: "hashable (fst (assign_session_id now1 (fst r)))"
    using hyp by (simp add: assign_session_id_def Let_def sid)
  have "py_get (snd (assign_session_id now1 (fst r))) (py ''session_id'') PNone =
       (if truthy session_id then session_id
        else PStr (py ''session-'' @ str_int (int_of_float now1)))"
    by (simp add: assign_session_id_def Let_def sid py_get_setitem)
  moreover have "py_get (snd (assign_session_id now1 (fst r))) (py ''chat_id'') PNone
      \<in> set (map PStr (dict_values (snd r)))"
    using resolve_chat_id_issued [of uuid4 "conversation_store self" h body]
    by (simp add: r_def assign_session_id_chat_id)
  ultimately show ?thesis
    using hs by (simp add: inlet_unfold [OF h] Let_def r_def [symmetric] session_id_def)
qed

lemma inlet_returns_only_ok:
  assumes "inlet sha256 uuid4 now1 now2 self body = (Inr body', self')"
  shows "request_ok body"
proof -
  obtain h where h: "hash_user_messages sha256 (py_get body (py ''messages'') (PList [])) = Inr h"
    using assms inlet_returns_hash by blast
  then obtain ms where ms: "py_iter (py_get body (py ''messages'') (PList [])) = Inr ms"
    and hl: "hash_loop sha256 ms = Inr h"
    by (auto simp: hash_user_messages_def split: sum.splits)
  from hl have ok: "messages_ok ms" using hash_loop_returns_iff by blast
  define r where "r = resolve_chat_id uuid4 (conversation_store self) h body"
  have sid: "py_get (fst r) (py ''session_id'') PNone = py_get body (py ''session_id'') PNone"
    by (simp add: r_def resolve_chat_id_def Let_def py_get_setitem split: option.splits)
  have "hashable (fst (assign_session_id now1 (fst r)))"
    using assms by (auto simp: inlet_unfold [OF h] Let_def r_def split: if_splits)
  then have "truthy (py_get body (py ''session_id'') PNone)
      \<longrightarrow> hashable (py_get body (py ''session_id'') PNone)"
    by (simp add: assign_session_id_def Let_def sid split: if_splits)
  with ms ok show ?thesis by (simp add: request_ok_def)
qed

lemma default_fingerprint:
  assumes "py_iter messages = Inr ms"
    and "hash_user_messages sha256 messages = Inr h"
    and "case first_user_message ms of None \<Rightarrow> True | Some m \<Rightarrow> map_of m (py ''content'') = None"
  shows "h = sha256 []"
proof -
  from assms(1,2) have hl: "hash_loop sha256 ms = Inr h"
    by (simp add: hash_user_messages_def)
  show ?thesis
  proof (cases "first_user_message ms")
    case None
    with hl show ?thesis by (rule hash_loop_no_user)
  next
    case (Some m)
    with assms(3) have "py_get m (py ''content'') (PStr []) = PStr []"
      by (simp add: py_get_def)
    with hash_loop_first_user [OF hl Some] show ?thesis by auto
  qed
qed

text \<open>
  C4, as stated, fails: inlet raises on a request whose user message has a list of
  content parts instead of a string. The attribute lookup \<^verbatim>\<open>encode\<close> on the list raises
  \<^verbatim>\<open>AttributeError\<close>, and nothing in inlet catches it.
\<close>

theorem inlet_raises_counterexample:
  "inlet id uuid_x 10 10 Filter_init request_parts = (Inl AttributeError, Filter_init)"
  by (simp add: request_parts_def inlet_def hash_user_messages_def py_get_def)

text \<open>
  C4, amended. inlet returns a body exactly for the requests described by
  \<open>request_ok\<close>: the messages are absent or can be iterated, every element before the
  first user message is an object, the content of the first user message (when there is
  one) is missing or a string that can be encoded, and the session identifier is absent,
  falsy or hashable. For such a request the conversation identifier of the returned body
  is a value of the conversation store, a missing or falsy session identifier is replaced
  by the generated one and a supplied one is kept, and the fingerprint is the digest of
  the empty string when there is no user message or the first one has no content.
\<close>

theorem inlet_returns:
  "((\<exists>body' self'. inlet sha256 uuid4 now1 now2 self body = (Inr body', self'))
      \<longleftrightarrow> request_ok body) \<and>
   (request_ok body \<longrightarrow>
      (\<exists>body' self'.
         inlet sha256 uuid4 now1 now2 self body = (Inr body', self') \<and>
         py_get body' (py ''chat_id'') PNone
           \<in> set (map PStr (dict_values (conversation_store self'))) \<and>
         py_get body' (py ''session_id'') PNone =
           (if truthy (py_get body (py ''session_id'') PNone)
            then py_get body (py ''session_id'') PNone
            else PStr (py ''session-'' @ str_int (int_of_float now1)))) \<and>
      (\<forall>ms. py_iter (py_get body (py ''messages'') (PList [])) = Inr ms \<longrightarrow>
         (case first_user_message ms of
            None \<Rightarrow> True
          | Some m \<Rightarrow> map_of m (py ''content'') = None) \<longrightarrow>
         hash_user_messages sha256 (py_get body (py ''messages'') (PList []))
           = Inr (sha256 [])))"
proof (intro conjI impI allI)
  show "(\<exists>body' self'. inlet sha256 uuid4 now1 now2 self body = (Inr body', self'))
      \<longleftrightarrow> request_ok body"
    using inlet_returns_ok inlet_returns_only_ok by blast
next
  assume "request_ok body"
  then show "\<exists>body' self'.
         inlet sha256 uuid4 now1 now2 self body = (Inr body', self') \<and>
         py_get body' (py ''chat_id'') PNone
           \<in> set (map PStr (dict_values (conversation_store self'))) \<and>
         py_get body' (py ''session_id'') PNone =
           (if truthy (py_get body (py ''session_id'') PNone)
            then py_get body (py ''session_id'') PNone
            else PStr (py ''session-'' @ str_int (int_of_float now1)))"
    by (rule inlet_returns_ok)
next
  fix ms
  assume ok: "request_ok body"
    and ms: "py_iter (py_get body (py ''messages'') (PList [])) = Inr ms"
    and d: "case first_user_message ms of None \<Rightarrow> True
            | Some m \<Rightarrow> map_of m (py ''content'') = None"
  obtain body' self' where "inlet sha256 uuid4 now1 now2 self body = (Inr body', self')"
    using inlet_returns_ok [OF ok] by blast
  then obtain h where
    h: "hash_user_messages sha256 (py_get body (py ''messages'') (PList [])) = Inr h"
    using inlet_returns_hash by blast
  from default_fingerprint [OF ms h d] h
  show "hash_user_messages sha256 (py_get body (py ''messages'') (PList [])) = Inr (sha256 [])"
    by simp
qed

theorem inlet_returns_witness:
  "request_ok request_a \<and> request_ok [] \<and> \<not> request_ok request_parts \<and>
   \<not> request_ok request_surrogate \<and>
   (\<exists>body' self'. inlet id uuid_x 10 10 Filter_init request_a = (Inr body', self') \<and>
      py_get body' (py ''chat_id'') PNone
        \<in> set (map PStr (dict_values (conversation_store self'))) \<and>
      py_get body' (py ''session_id'') PNone = PStr (py ''session-10'')) \<and>
   hash_user_messages id (py_get [] (py ''messages'') (PList [])) = Inr []"
proof -
  have a: "request_ok request_a"
    by (simp add: example_defs request_ok_def messages_ok_def py_get_def)
  have e: "request_ok []"
    by (simp add: request_ok_def messages_ok_def py_get_def)
  have p: "\<not> request_ok request_parts"
    by (simp add: request_parts_def request_ok_def messages_ok_def py_get_def)
  have s: "\<not> request_ok request_surrogate"
    by (simp add: request_surrogate_def request_ok_def messages_ok_def py_get_def
        encodable_def is_surrogate_def)
  have g: "py ''session-'' @ str_int (int_of_float 10) = py ''session-10''"
    by (simp add: int_of_float_def str_int_def str_nat.simps digit_char_def)
  have n: "py_get request_a (py ''session_id'') PNone = PNone"
    by (simp add: example_defs py_get_def)
  have i: "py_iter (py_get [] (py ''messages'') (PList [])) = Inr []"
    by (simp add: py_get_def)
  from inlet_returns [of id uuid_x 10 10 Filter_init request_a] a n g
  have 1: "\<exists>body' self'. inlet id uuid_x 10 10 Filter_init request_a = (Inr body', self') \<and>
      py_get body' (py ''chat_id'') PNone
        \<in> set (map PStr (dict_values (conversation_store self'))) \<and>
      py_get body' (py ''session_id'') PNone = PStr (py ''session-10'')"
    by simp
  from inlet_returns [of id uuid_x 10 10 Filter_init "[]"] e i
  have 2: "hash_user_messages id (py_get [] (py ''messages'') (PList [])) = Inr []"
    by simp
  from a e p s 1 2 show ?thesis by simp
qed

text \<open>
  The other failure that decoded JSON can cause: a user message whose string content
  holds a surrogate on its own makes \<^verbatim>\<open>encode\<close> raise.
\<close>

lemma inlet_raises_surrogate:
  "inlet id uuid_x 10 10 Filter_init request_surrogate = (Inl UnicodeEncodeError, Filter_init)"
  by (simp add: request_surrogate_def inlet_def hash_user_messages_def py_get_def
      encodable_def is_surrogate_def)

section \<open>outlet\<close>

text \<open>
  C5, as stated, fails: on a response body whose session identifier is a list, the
  membership test on the registry raises \<^verbatim>\<open>TypeError\<close>, and outlet does not return the
  body.
\<close>

theorem outlet_raises_counterexample:
  "outlet 11 state_a finish_list = (Inl TypeError, state_a)"
  by (simp add: finish_list_def outlet_def py_get_def)

text \<open>
  C5, amended. In a reachable state, for a response body whose session identifier is
  absent, falsy or hashable, outlet returns the body as it is and leaves the
  conversation store and the valves alone. When the session identifier is in the
  registry and the body signals completion (a true \<^verbatim>\<open>done\<close> or a \<^verbatim>\<open>stop_reason\<close>), the entry
  of the session becomes inactive and gets the end time, and no other entry changes; in
  every other case the whole state is unchanged.
\<close>

theorem outlet_finalize:
  assumes "reachable sha256 self"
    and "session_id = py_get body (py ''session_id'') PNone"
    and "truthy session_id \<longrightarrow> hashable session_id"
  shows "fst (outlet now self body) = Inr body \<and>
    conversation_store (snd (outlet now self body)) = conversation_store self \<and>
    valves (snd (outlet now self body)) = valves self \<and>
    (case map_of (active_streams self) (hkey session_id) of
       Some info \<Rightarrow>
         if truthy (py_get body (py ''done'') (PBool False)) \<or> truthy (py_get body (py ''stop_reason'') PNone)
         then map_of (active_streams (snd (outlet now self body))) =
                (map_of (active_streams self))
                  (hkey session_id \<mapsto> info\<lparr>active := False, end_time := Some now\<rparr>) \<and>
              map fst (active_streams (snd (outlet now self body))) = map fst (active_streams self)
         else snd (outlet now self body) = self
     | None \<Rightarrow> snd (outlet now self body) = self)"
proof (cases "truthy session_id")
  case True
  with assms show ?thesis
    by (auto simp: outlet_def Let_def map_of_dict_setitem dict_setitem_keys split: option.splits)
next
  case False
  have "keys_truthy self" using assms(1) reachable_invariants by blast
  then have "map_of (active_streams self) (hkey session_id) = None"
    using False by (rule falsy_not_registered)
  with False assms(2) show ?thesis by (simp add: outlet_def Let_def)
qed

theorem outlet_finalize_witness:
  "reachable id state_a \<and>
   fst (outlet 11 state_a finish_a) = Inr finish_a \<and>
   conversation_store (snd (outlet 11 state_a finish_a)) = conversation_store state_a \<and>
   map_of (active_streams (snd (outlet 11 state_a finish_a))) (PStr (py ''session-10'')) =
     Some ((entry_of uuid_x 10)\<lparr>active := False, end_time := Some 11\<rparr>)"
proof -
  have s: "PStr (py ''session-10'') = py_get finish_a (py ''session_id'') PNone"
    by (simp add: finish_a_def py_get_def)
  have t: "truthy (PStr (py ''session-10'')) \<longrightarrow> hashable (PStr (py ''session-10''))" by simp
  show ?thesis
    using reachable_state_a outlet_finalize [OF reachable_state_a s t, of 11]
    by (simp add: state_a_def finish_a_def py_get_def)
qed

section \<open>handle_stop\<close>

text \<open>
  C6. For a session identifier that is not in the registry, handle_stop returns the
  outcome with status "error" and message "Session not found", sends no request, and
  returns the state as it was.
\<close>

theorem handle_stop_unknown_session:
  "map_of (active_streams self) (PStr session_id) = None \<Longrightarrow>
   handle_stop backend now self session_id =
     (\<lparr>status = py ''error'', message = py ''Session not found''\<rparr>, self, [])"
  by (simp add: handle_stop_def)

theorem handle_stop_unknown_session_witness:
  "map_of (active_streams state_a) (PStr (py ''unknown-session'')) = None \<and>
   handle_stop (\<lambda>r. Response 200) 12 state_a (py ''unknown-session'') =
     (\<lparr>status = py ''error'', message = py ''Session not found''\<rparr>, state_a, [])"
  using handle_stop_unknown_session [of state_a "(py ''unknown-session'')" "\<lambda>r. Response 200" 12]
  by (simp add: state_a_def)

text \<open>
  C7. For a session identifier in the registry, handle_stop sends one request, to the
  backend URL followed by the stop endpoint, with the session identifier and the
  recorded conversation identifier, and a timeout of 5 seconds. When the backend
  answers with status 200, the outcome is "success" with message "Stream stopped", the
  entry of the session becomes inactive, is marked as stopped by the user and gets the
  stop time, and nothing else in the state changes. The outcome is "success" only when
  the backend answers with status 200.
\<close>

theorem handle_stop_success:
  assumes "map_of (active_streams self) (PStr session_id) = Some info"
    and "request = \<lparr>url = backend_url (valves self) @ stop_endpoint (valves self),
                     json = [(py ''session_id'', PStr session_id), (py ''chat_id'', chat_id info)],
                     timeout = 5\<rparr>"
    and "handle_stop backend now self session_id = (result, self', sent)"
  shows "sent = [request] \<and>
    (backend request = Response 200 \<longrightarrow>
       result = \<lparr>status = py ''success'', message = py ''Stream stopped''\<rparr> \<and>
       map_of (active_streams self') =
         (map_of (active_streams self))
           (PStr session_id \<mapsto> info\<lparr>active := False, stopped_by_user := Some True,
                                      stop_time := Some now\<rparr>) \<and>
       map fst (active_streams self') = map fst (active_streams self) \<and>
       conversation_store self' = conversation_store self \<and> valves self' = valves self) \<and>
    (status result = py ''success'' \<longleftrightarrow> backend request = Response 200)"
  using assms
  by (auto simp: handle_stop_def Let_def map_of_dict_setitem dict_setitem_keys
      split: http_result.splits if_splits)

theorem handle_stop_success_witness:
  "map_of (active_streams state_a) (PStr (py ''session-10'')) = Some (entry_of uuid_x 10) \<and>
   fst (handle_stop (\<lambda>r. Response 200) 12 state_a (py ''session-10'')) =
     \<lparr>status = py ''success'', message = py ''Stream stopped''\<rparr> \<and>
   map_of (active_streams (fst (snd (handle_stop (\<lambda>r. Response 200) 12 state_a (py ''session-10'')))))
     (PStr (py ''session-10'')) =
     Some ((entry_of uuid_x 10)
       \<lparr>active := False, stopped_by_user := Some True, stop_time := Some 12\<rparr>) \<and>
   snd (snd (handle_stop (\<lambda>r. Response 200) 12 state_a (py ''session-10''))) = [stop_request_a]"
  using state_a_entry
    handle_stop_success [OF state_a_entry stop_request_a_eq,
      of "\<lambda>r. Response 200" 12 "fst (handle_stop (\<lambda>r. Response 200) 12 state_a (py ''session-10''))"
        "fst (snd (handle_stop (\<lambda>r. Response 200) 12 state_a (py ''session-10'')))"
        "snd (snd (handle_stop (\<lambda>r. Response 200) 12 state_a (py ''session-10'')))"]
  by simp

text \<open>
  C8. For a session identifier in the registry, when the backend answers with a status
  other than 200 or the request raises, handle_stop returns an outcome (it has no
  other result) with status "error", whose message is "Backend returned " followed by
  the status code, or "Failed to reach backend: " followed by the text of the
  exception; the state, and with it the entry of the session, is unchanged.
\<close>

theorem handle_stop_failure:
  assumes "map_of (active_streams self) (PStr session_id) = Some info"
    and "request = \<lparr>url = backend_url (valves self) @ stop_endpoint (valves self),
                     json = [(py ''session_id'', PStr session_id), (py ''chat_id'', chat_id info)],
                     timeout = 5\<rparr>"
    and "backend request \<noteq> Response 200"
  shows "handle_stop backend now self session_id =
    (\<lparr>status = py ''error'',
      message = (case backend request of
                   Response status_code \<Rightarrow> py ''Backend returned '' @ str_int status_code
                 | RequestException e \<Rightarrow> py ''Failed to reach backend: '' @ e)\<rparr>,
     self, [request])"
  using assms
  by (auto simp: handle_stop_def Let_def split: http_result.splits)

theorem handle_stop_failure_witness:
  "map_of (active_streams state_a) (PStr (py ''session-10'')) = Some (entry_of uuid_x 10) \<and>
   handle_stop (\<lambda>r. Response 500) 12 state_a (py ''session-10'') =
     (\<lparr>status = py ''error'', message = py ''Backend returned 500''\<rparr>, state_a, [stop_request_a]) \<and>
   handle_stop (\<lambda>r. RequestException (py ''timed out'')) 12 state_a (py ''session-10'') =
     (\<lparr>status = py ''error'', message = py ''Failed to reach backend: timed out''\<rparr>, state_a,
      [stop_request_a])"
proof -
  have e: "str_int 500 = py ''500''"
    by (simp add: str_int_def str_nat.simps digit_char_def)
  show ?thesis
    using state_a_entry
      handle_stop_failure [OF state_a_entry stop_request_a_eq, of "\<lambda>r. Response 500" 12]
      handle_stop_failure [OF state_a_entry stop_request_a_eq,
        of "\<lambda>r. RequestException (py ''timed out'')" 12]
    by (simp add: e)
qed

section \<open>The registry and the conversation store\<close>

text \<open>
  C9. In every reachable state the conversation identifier of every entry of the session
  registry is a value of the conversation store (a freshly drawn identifier is stored
  before the entry is written), and every call of inlet, outlet and handle_stop, with
  whatever arguments, preserves this.
\<close>

theorem registry_invariant:
  "(reachable sha256 self \<longrightarrow> registry_inv self) \<and>
   (registry_inv self \<longrightarrow> registry_inv (step sha256 self c))"
  by (simp add: reachable_registry_inv step_registry_inv)

theorem registry_invariant_witness:
  "reachable id state_a \<and> registry_inv state_a \<and>
   registry_inv (step id state_a (Inlet uuid_y 20 20 request_b))"
  using reachable_state_a registry_invariant [of id state_a "Inlet uuid_y 20 20 request_b"]
  by simp

text \<open>
  C10. In a reachable state, inlet on a request that supplies an identifier which is a
  value of the conversation store leaves the store unchanged: the fingerprint of the
  request is not bound. A later request with the same fingerprint and no identifier,
  made while the fingerprint is still not a key of the store, gets the identifier drawn
  for it, which (being fresh, that is, not a value of the store) differs from the
  supplied one, and the store gains the fingerprint with the new identifier.
\<close>

theorem trusted_chat_id_leaves_store:
  assumes "reachable sha256 self"
    and "py_get body1 (py ''chat_id'') PNone = PStr c"
    and "c \<in> set (dict_values (conversation_store self))"
    and "hash_user_messages sha256 (py_get body1 (py ''messages'') (PList [])) = Inr conv_hash"
    and "self1 = snd (inlet sha256 uuid1 now1 now2 self body1)"
    and "self2 = run sha256 self1 calls"
    and "map_of (conversation_store self2) conv_hash = None"
    and "hash_user_messages sha256 (py_get body2 (py ''messages'') (PList [])) = Inr conv_hash"
    and "py_get body2 (py ''chat_id'') PNone = PNone"
    and "uuid2 \<notin> set (dict_values (conversation_store self2))"
    and "inlet sha256 uuid2 now3 now4 self2 body2 = (Inr body2', self3)"
  shows "conversation_store self1 = conversation_store self \<and>
         py_get body2' (py ''chat_id'') PNone = PStr uuid2 \<and> uuid2 \<noteq> c \<and>
         conversation_store self3 = conversation_store self2 @ [(conv_hash, uuid2)]"
proof -
  have ne: "values_nonempty self" using assms(1) reachable_invariants by blast
  have "PStr c \<in> set (map PStr (dict_values (conversation_store self)))"
    using assms(3) by simp
  moreover from this have "truthy (PStr c)" using ne provided_truthy by blast
  ultimately have s1: "conversation_store self1 = conversation_store self"
    using assms(2) unfolding assms(5)
    by (simp add: inlet_unfold [OF assms(4)] Let_def resolve_chat_id_def)
  obtain ext where "conversation_store self2 = conversation_store self1 @ ext"
    unfolding assms(6) using run_store_append by blast
  with s1 assms(3) have "c \<in> set (dict_values (conversation_store self2))"
    by (auto simp: dict_values_def)
  with assms(10) have neq: "uuid2 \<noteq> c" by auto
  have "py_get body2' (py ''chat_id'') PNone = PStr uuid2 \<and>
        conversation_store self3 = conversation_store self2 @ [(conv_hash, uuid2)]"
    using assms(9,11) assms(7)
    by (auto simp: inlet_unfold [OF assms(8)] Let_def resolve_chat_id_def assign_session_id_chat_id
        py_get_setitem dict_setitem_append split: if_splits)
  with neq s1 show ?thesis by simp
qed

theorem trusted_chat_id_leaves_store_witness:
  "reachable id state_a \<and>
   py_get request_c (py ''chat_id'') PNone = PStr uuid_x \<and>
   uuid_x \<in> set (dict_values (conversation_store state_a)) \<and>
   conversation_store (snd (inlet id uuid_y 30 30 state_a request_c)) = conversation_store state_a \<and>
   inlet id uuid_y 40 40 (run id (snd (inlet id uuid_y 30 30 state_a request_c)) []) request_d =
     (Inr (request_d @ [(py ''chat_id'', PStr uuid_y), (py ''session_id'', PStr (py ''session-40''))]),
      state_d) \<and>
   py_get (request_d @ [(py ''chat_id'', PStr uuid_y), (py ''session_id'', PStr (py ''session-40''))])
     (py ''chat_id'') PNone = PStr uuid_y \<and>
   uuid_y \<noteq> uuid_x \<and>
   conversation_store state_d = conversation_store state_a @ [(py ''other'', uuid_y)]"
proof -
  have c: "py_get request_c (py ''chat_id'') PNone = PStr uuid_x"
    by (simp add: example_defs py_get_def)
  have v: "uuid_x \<in> set (dict_values (conversation_store state_a))"
    by (simp add: state_a_def dict_values_def)
  have h1: "hash_user_messages id (py_get request_c (py ''messages'') (PList [])) = Inr (py ''other'')"
    by (simp add: example_defs hash_user_messages_def py_get_def)
  have h2: "hash_user_messages id (py_get request_d (py ''messages'') (PList [])) = Inr (py ''other'')"
    by (simp add: example_defs hash_user_messages_def py_get_def)
  have s2: "run id (snd (inlet id uuid_y 30 30 state_a request_c)) [] = state_c"
    by (simp add: run_def inlet_request_c)
  have n: "map_of (conversation_store (run id (snd (inlet id uuid_y 30 30 state_a request_c)) []))
      (py ''other'') = None"
    by (simp add: s2 state_c_def)
  have d: "py_get request_d (py ''chat_id'') PNone = PNone"
    by (simp add: example_defs py_get_def)
  have f: "uuid_y \<notin> set (dict_values
      (conversation_store (run id (snd (inlet id uuid_y 30 30 state_a request_c)) [])))"
    unfolding s2 by (simp add: state_c_def dict_values_def uuid_x_def uuid_y_def)
  have i: "inlet id uuid_y 40 40 (run id (snd (inlet id uuid_y 30 30 state_a request_c)) [])
      request_d =
     (Inr (request_d @ [(py ''chat_id'', PStr uuid_y), (py ''session_id'', PStr (py ''session-40''))]),
      state_d)"
    by (simp only: s2 inlet_request_d)
  show ?thesis
    using reachable_state_a c v i
      trusted_chat_id_leaves_store [OF reachable_state_a c v h1 refl refl n h2 d f i]
    unfolding s2 by (simp add: state_c_def state_a_def)
qed

end
